theory Spec2Isabelle
  imports Main "HOL-Library.Word"
begin

section \<open>Data model\<close>

text \<open>
  The ORM class \<open>Task\<close> is one row of table \<open>tasks\<close>. The attributes of the Python object
  may hold \<open>None\<close>; the columns say which of them the table accepts: \<open>id\<close> is the integer
  primary key, \<open>title\<close> is declared \<open>nullable=False\<close>, \<open>description\<close> is declared
  \<open>nullable=True\<close>, and \<open>done\<close> is \<open>Column(Boolean, default=False)\<close> with no
  \<open>nullable\<close> argument, hence a nullable column. The names \<open>id\<close> and \<open>done\<close> are taken in
  Isabelle and carry a prime. An integer primary key of SQLite is the rowid, a signed
  64-bit integer; \<open>rowid\<close> reads it as the Python integer the handlers see.
\<close>

record Task =
  id' :: "64 word"
  title :: "string option"
  description :: "string option"
  done' :: "bool option"

abbreviation rowid :: "Task \<Rightarrow> int" where
  "rowid t \<equiv> sint (Task.id' t)"

text \<open>The pydantic models. \<open>TaskCreate\<close> adds nothing to \<open>TaskBase\<close>.\<close>

record TaskBase =
  title :: string
  description :: "string option"
  done' :: bool

type_synonym TaskCreate = TaskBase

text \<open>
  Every field of \<open>TaskUpdate\<close> is \<open>Optional[...] = None\<close>. A parsed payload knows which
  fields the request body named (pydantic's set of fields set): a field is either
  \<open>Unset\<close>, or \<open>Supplied v\<close> where \<open>v\<close> is \<open>None\<close> for a JSON \<open>null\<close>.
\<close>

datatype 'a supplied = Unset | Supplied 'a

record TaskUpdate =
  title :: "string option supplied"
  description :: "string option supplied"
  done' :: "bool option supplied"

record TaskInDB = TaskBase +
  id' :: int

text \<open>
  The body of a create request before validation: each field is absent, \<open>null\<close> or a value.
  \<open>TaskCreate_validate\<close> is what pydantic makes of it with the declarations of \<open>TaskBase\<close>:
  \<open>title: str\<close> is required, \<open>description: Optional[str] = None\<close> and
  \<open>done: bool = False\<close> take their defaults when absent, and \<open>null\<close> is refused for
  \<open>title\<close> and \<open>done\<close>. \<open>None\<close> is the validation error.
\<close>

record Body =
  title :: "string option supplied"
  description :: "string option supplied"
  done' :: "bool option supplied"


datatype error =
  HTTPException int string
  | IntegrityError
  | InvalidRequestError
  | OverflowError
  | OperationalError

section \<open>The session on table \<open>tasks\<close>\<close>

text \<open>
  The table is the list of its rows in rowid order, which is the order in which SQLite
  scans it for a query with no \<open>ORDER BY\<close>. Each request runs in a session of its own
  that is closed when the handler ends, so a handler that raises before or in \<open>commit\<close>
  leaves the table as it found it.

  The handlers receive \<open>task_id\<close>, \<open>skip\<close> and \<open>limit\<close> as Python integers, which are
  unbounded. A query binds them as parameters, and the driver raises \<open>OverflowError\<close> for
  an integer outside the signed 64-bit range, before the statement runs.
\<close>

type_synonym Session = "Task list"

definition in_int64 :: "int \<Rightarrow> bool" where
  "in_int64 i \<longleftrightarrow> - (2 ^ 63) \<le> i \<and> i < 2 ^ 63"

text \<open>\<open>db.query(Task).filter(Task.id == task_id).first()\<close>\<close>

definition query_filter_first :: "int \<Rightarrow> Session \<Rightarrow> error + Task option" where
  "query_filter_first task_id db =
     (if in_int64 task_id then Inr (find (\<lambda>t. rowid t = task_id) db)
      else Inl OverflowError)"

text \<open>
  \<open>db.query(Task).offset(skip).limit(limit).all()\<close>: SQLite reads a negative \<open>OFFSET\<close> as
  zero and a negative \<open>LIMIT\<close> as no limit.
\<close>

definition query_offset_limit_all :: "int \<Rightarrow> int \<Rightarrow> Session \<Rightarrow> error + Task list" where
  "query_offset_limit_all skip limit db =
     (if in_int64 skip \<and> in_int64 limit
      then Inr (let rows = drop (nat skip) db
                in if limit < 0 then rows else take (nat limit) rows)
      else Inl OverflowError)"

text \<open>
  The rowid SQLite gives to a row inserted without one: 1 in an empty table, otherwise one
  more than the largest rowid in use. When the largest rowid in use is the largest there
  is, SQLite draws rowids at random and fails with "database or disk is full" if it finds
  none free. The draw is not followed here: \<open>next_rowid\<close> is \<open>None\<close> then, and the insert
  is taken to fail.
\<close>

definition next_rowid :: "Session \<Rightarrow> 64 word option" where
  "next_rowid db =
     (if db = [] then Some 1
      else (let largest = Max (set (map rowid db))
            in if largest < 2 ^ 63 - 1 then Some (word_of_int (largest + 1)) else None))"

text \<open>
  \<open>Task(title=..., description=..., done=...)\<close>, \<open>db.add\<close>, \<open>db.commit\<close>: the three values
  come from a \<open>TaskCreate\<close>, whose \<open>title\<close> is a \<open>str\<close> and whose \<open>done\<close> is a \<open>bool\<close>.
  The result is the primary key of the new row and the table.
\<close>

definition add_commit ::
  "string \<Rightarrow> string option \<Rightarrow> bool \<Rightarrow> Session \<Rightarrow> error + (64 word \<times> Session)" where
  "add_commit t d b db =
     (case next_rowid db of
        None \<Rightarrow> Inl OperationalError
      | Some pk \<Rightarrow>
          Inr (pk, db @ [\<lparr>Task.id' = pk, Task.title = Some t, Task.description = d,
                          Task.done' = Some b\<rparr>]))"

text \<open>\<open>db.refresh(db_task)\<close> reads the row of that primary key again.\<close>

definition refresh :: "64 word \<Rightarrow> Session \<Rightarrow> error + Task" where
  "refresh pk db =
     (case query_filter_first (sint pk) db of
        Inl e \<Rightarrow> Inl e
      | Inr None \<Rightarrow> Inl InvalidRequestError
      | Inr (Some db_task) \<Rightarrow> Inr db_task)"

text \<open>
  \<open>task.dict(exclude_unset=True)\<close> is the dictionary of the supplied fields, in the order
  of their declaration; the loop calls \<open>setattr(db_task, key, value)\<close> on each item.
\<close>

datatype item =
  Item_title "string option"
  | Item_description "string option"
  | Item_done "bool option"

definition dict_exclude_unset :: "TaskUpdate \<Rightarrow> item list" where
  "dict_exclude_unset task =
     (case TaskUpdate.title task of Unset \<Rightarrow> [] | Supplied v \<Rightarrow> [Item_title v])
     @ (case TaskUpdate.description task of Unset \<Rightarrow> [] | Supplied v \<Rightarrow> [Item_description v])
     @ (case TaskUpdate.done' task of Unset \<Rightarrow> [] | Supplied v \<Rightarrow> [Item_done v])"

fun setattr :: "Task \<Rightarrow> item \<Rightarrow> Task" where
  "setattr db_task (Item_title v) = db_task\<lparr>Task.title := v\<rparr>"
| "setattr db_task (Item_description v) = db_task\<lparr>Task.description := v\<rparr>"
| "setattr db_task (Item_done v) = db_task\<lparr>Task.done' := v\<rparr>"

text \<open>
  \<open>db.add(db_task)\<close>, \<open>db.commit()\<close> of a row that is already in the table: the row of that
  primary key takes the attributes of the object. The \<open>NOT NULL\<close> constraint of \<open>title\<close>
  makes the statement fail, and then nothing is written.
\<close>

definition commit_update :: "Task \<Rightarrow> Session \<Rightarrow> error + Session" where
  "commit_update db_task db =
     (if Task.title db_task = None then Inl IntegrityError
      else Inr (map (\<lambda>r. if Task.id' r = Task.id' db_task then db_task else r) db))"

text \<open>\<open>db.delete(db_task)\<close>, \<open>db.commit()\<close>\<close>

definition delete_commit :: "Task \<Rightarrow> Session \<Rightarrow> Session" where
  "delete_commit db_task db = filter (\<lambda>r. Task.id' r \<noteq> Task.id' db_task) db"

section \<open>The handlers\<close>

text \<open>
  The detail of the 404 is the Portuguese for "task not found", kept as its UTF-8 bytes:
  the fourth letter of the second word is an a with a tilde.
\<close>

definition not_found_detail :: string where
  "not_found_detail = ''Tarefa n'' @ [CHR 0xC3, CHR 0xA3] @ ''o encontrada''"

definition create_task :: "TaskCreate \<Rightarrow> Session \<Rightarrow> (error + Task) \<times> Session" where
  "create_task task db =
     (case add_commit (TaskBase.title task) (TaskBase.description task)
             (TaskBase.done' task) db of
        Inl e \<Rightarrow> (Inl e, db)
      | Inr (pk, db') \<Rightarrow> (refresh pk db', db'))"

definition read_tasks :: "int \<Rightarrow> int \<Rightarrow> Session \<Rightarrow> error + Task list" where
  "read_tasks skip limit db = (let tasks = query_offset_limit_all skip limit db in tasks)"

definition read_task :: "int \<Rightarrow> Session \<Rightarrow> error + Task" where
  "read_task task_id db =
     (case query_filter_first task_id db of
        Inl e \<Rightarrow> Inl e
      | Inr None \<Rightarrow> Inl (HTTPException 404 not_found_detail)
      | Inr (Some db_task) \<Rightarrow> Inr db_task)"

definition update_task :: "int \<Rightarrow> TaskUpdate \<Rightarrow> Session \<Rightarrow> (error + Task) \<times> Session" where
  "update_task task_id task db =
     (case query_filter_first task_id db of
        Inl e \<Rightarrow> (Inl e, db)
      | Inr None \<Rightarrow> (Inl (HTTPException 404 not_found_detail), db)
      | Inr (Some db_task) \<Rightarrow>
          (let update_data = dict_exclude_unset task;
               db_task' = fold (\<lambda>item obj. setattr obj item) update_data db_task
           in case commit_update db_task' db of
                Inl e \<Rightarrow> (Inl e, db)
              | Inr db' \<Rightarrow> (refresh (Task.id' db_task') db', db')))"

definition delete_task :: "int \<Rightarrow> Session \<Rightarrow> (error + unit) \<times> Session" where
  "delete_task task_id db =
     (case query_filter_first task_id db of
        Inl e \<Rightarrow> (Inl e, db)
      | Inr None \<Rightarrow> (Inl (HTTPException 404 not_found_detail), db)
      | Inr (Some db_task) \<Rightarrow> (Inr (), delete_commit db_task db))"

section \<open>The routes\<close>

text \<open>
  A route sends what its handler returns through its \<open>response_model\<close> and answers with
  its \<open>status_code\<close> (200 when the decorator names none). An \<open>HTTPException\<close> is answered
  with its own status and detail. Any other exception, and a return value that the
  response model rejects, is answered with status 500. A create request whose body
  validation refuses is answered with status 422 before the handler runs.
\<close>

datatype content =
  JSON_task TaskInDB
  | JSON_tasks "TaskInDB list"
  | JSON_detail string
  | Empty
  | Internal_Server_Error
  | Unprocessable_Entity

record response =
  status_code :: int
  content :: content

text \<open>
  \<open>TaskInDB\<close> read from the attributes of a \<open>Task\<close> (\<open>from_attributes = True\<close>): \<open>title\<close>
  must be a \<open>str\<close> and \<open>done\<close> a \<open>bool\<close>, so \<open>None\<close> in either is rejected.
\<close>

definition TaskInDB_from_attributes :: "Task \<Rightarrow> TaskInDB option" where
  "TaskInDB_from_attributes obj =
     (case Task.title obj of
        None \<Rightarrow> None
      | Some t \<Rightarrow>
          (case Task.done' obj of
             None \<Rightarrow> None
           | Some b \<Rightarrow>
               Some \<lparr>TaskBase.title = t, TaskBase.description = Task.description obj,
                     TaskBase.done' = b, TaskInDB.id' = rowid obj\<rparr>))"

fun list_from_attributes :: "Task list \<Rightarrow> TaskInDB list option" where
  "list_from_attributes [] = Some []"
| "list_from_attributes (obj # objs) =
     (case TaskInDB_from_attributes obj of
        None \<Rightarrow> None
      | Some t \<Rightarrow> map_option ((#) t) (list_from_attributes objs))"

definition route :: "int \<Rightarrow> ('a \<Rightarrow> content option) \<Rightarrow> error + 'a \<Rightarrow> response" where
  "route code response_model result =
     (case result of
        Inl (HTTPException status detail) \<Rightarrow> \<lparr>status_code = status, content = JSON_detail detail\<rparr>
      | Inl _ \<Rightarrow> \<lparr>status_code = 500, content = Internal_Server_Error\<rparr>
      | Inr v \<Rightarrow>
          (case response_model v of
             None \<Rightarrow> \<lparr>status_code = 500, content = Internal_Server_Error\<rparr>
           | Some c \<Rightarrow> \<lparr>status_code = code, content = c\<rparr>))"

definition POST_tasks :: "TaskCreate \<Rightarrow> Session \<Rightarrow> response \<times> Session" where
  "POST_tasks task db =
     (let (result, db') = create_task task db
      in (route 201 (\<lambda>obj. map_option JSON_task (TaskInDB_from_attributes obj)) result, db'))"


definition GET_tasks :: "int \<Rightarrow> int \<Rightarrow> Session \<Rightarrow> response \<times> Session" where
  "GET_tasks skip limit db =
     (route 200 (\<lambda>objs. map_option JSON_tasks (list_from_attributes objs))
        (read_tasks skip limit db), db)"

definition GET_task :: "int \<Rightarrow> Session \<Rightarrow> response \<times> Session" where
  "GET_task task_id db =
     (route 200 (\<lambda>obj. map_option JSON_task (TaskInDB_from_attributes obj))
        (read_task task_id db), db)"

definition PUT_task :: "int \<Rightarrow> TaskUpdate \<Rightarrow> Session \<Rightarrow> response \<times> Session" where
  "PUT_task task_id task db =
     (let (result, db') = update_task task_id task db
      in (route 200 (\<lambda>obj. map_option JSON_task (TaskInDB_from_attributes obj)) result, db'))"

definition DELETE_task :: "int \<Rightarrow> Session \<Rightarrow> response \<times> Session" where
  "DELETE_task task_id db =
     (let (result, db') = delete_task task_id db
      in (route 204 (\<lambda>_. Some Empty) result, db'))"

text \<open>A run of the application: requests served one after the other, from the empty table.\<close>

datatype request =
  POST TaskCreate
  | GET_list int int
  | GET int
  | PUT int TaskUpdate
  | DELETE int

fun app :: "request \<Rightarrow> Session \<Rightarrow> response \<times> Session" where
  "app (POST task) db = POST_tasks task db"
| "app (GET_list skip limit) db = GET_tasks skip limit db"
| "app (GET task_id) db = GET_task task_id db"
| "app (PUT task_id task) db = PUT_task task_id task db"
| "app (DELETE task_id) db = DELETE_task task_id db"

definition run :: "request list \<Rightarrow> Session" where
  "run reqs = fold (\<lambda>req db. snd (app req db)) reqs []"

section \<open>The update as the specification words it\<close>

text \<open>
  "For each field present in the partial set, overwrites the stored value; fields absent
  from the partial set retain prior values." \<open>overwritten\<close> is that record, written without
  reference to the handler; the handler is compared with it below.
\<close>

fun overwrite :: "'a supplied \<Rightarrow> 'a \<Rightarrow> 'a" where
  "overwrite Unset old = old"
| "overwrite (Supplied v) old = v"

definition overwritten :: "TaskUpdate \<Rightarrow> Task \<Rightarrow> Task" where
  "overwritten task r =
     \<lparr>Task.id' = Task.id' r,
      Task.title = overwrite (TaskUpdate.title task) (Task.title r),
      Task.description = overwrite (TaskUpdate.description task) (Task.description r),
      Task.done' = overwrite (TaskUpdate.done' task) (Task.done' r)\<rparr>"

section \<open>Concrete requests and rows\<close>

definition row1 :: Task where
  "row1 = \<lparr>Task.id' = 1, Task.title = Some ''Buy milk'', Task.description = Some ''x'',
           Task.done' = Some False\<rparr>"

definition row2 :: Task where
  "row2 = \<lparr>Task.id' = 2, Task.title = Some ''Walk dog'', Task.description = None,
           Task.done' = Some True\<rparr>"

definition no_fields :: TaskUpdate where
  "no_fields = \<lparr>TaskUpdate.title = Unset, TaskUpdate.description = Unset,
                TaskUpdate.done' = Unset\<rparr>"

definition buy_milk :: TaskCreate where
  "buy_milk = \<lparr>TaskBase.title = ''Buy milk'', TaskBase.description = None,
               TaskBase.done' = False\<rparr>"

definition walk_dog :: TaskCreate where
  "walk_dog = \<lparr>TaskBase.title = ''Walk dog'', TaskBase.description = Some ''x'',
               TaskBase.done' = False\<rparr>"


definition done_null :: TaskUpdate where
  "done_null = \<lparr>TaskUpdate.title = Unset, TaskUpdate.description = Unset,
                TaskUpdate.done' = Supplied None\<rparr>"

section \<open>Facts about the session\<close>

lemma in_int64_rowid: "in_int64 (rowid r)"
  using sint_ge [of "Task.id' r"] sint_lt [of "Task.id' r"] by (simp add: in_int64_def)

lemma id_eq_iff_rowid: "Task.id' a = Task.id' b \<longleftrightarrow> rowid a = rowid b"
  by (rule word_eq_iff_signed)

lemma sint_word_of_int64: "in_int64 i \<Longrightarrow> sint (word_of_int i :: 64 word) = i"
  by (simp add: in_int64_def sint_sbintrunc' signed_take_bit_int_eq_self)

lemma next_rowid_above:
  assumes "next_rowid db = Some pk" and "r \<in> set db"
  shows "rowid r < sint pk"
proof -
  let ?m = "Max (set (map rowid db))"
  from assms(2) have ne: "db \<noteq> []" by auto
  have le: "rowid r \<le> ?m"
    using assms(2) by (intro Max_ge) auto
  have "?m \<in> set (map rowid db)"
    using ne by (intro Max_in) auto
  then obtain q where "?m = rowid q" by auto
  then have lo: "- (2 ^ 63) \<le> ?m"
    using in_int64_rowid [of q] by (simp add: in_int64_def)
  from assms(1) ne have lt: "?m < 2 ^ 63 - 1" and pk: "pk = word_of_int (?m + 1)"
    by (auto simp: next_rowid_def Let_def split: if_splits)
  have "sint pk = ?m + 1"
    unfolding pk using lo lt by (intro sint_word_of_int64) (simp add: in_int64_def)
  with le show ?thesis by simp
qed

lemma next_rowid_fresh: "next_rowid db = Some pk \<Longrightarrow> sint pk \<notin> rowid ` set db"
  using next_rowid_above by fastforce

lemma find_append_fresh:
  "k \<notin> rowid ` set db \<Longrightarrow> rowid x = k \<Longrightarrow>
   find (\<lambda>t. rowid t = k) (db @ [x]) = Some x"
  by (induction db) auto

lemma query_filter_first_None:
  "in_int64 task_id \<Longrightarrow>
   query_filter_first task_id db = Inr None \<longleftrightarrow> task_id \<notin> rowid ` set db"
  by (auto simp: query_filter_first_def find_None_iff)

lemma query_filter_first_overflow:
  "\<not> in_int64 task_id \<Longrightarrow> query_filter_first task_id db = Inl OverflowError"
  by (simp add: query_filter_first_def)

lemma query_filter_first_Some_id:
  "query_filter_first task_id db = Inr (Some r) \<Longrightarrow>
   rowid r = task_id \<and> r \<in> set db \<and> find (\<lambda>t. rowid t = task_id) db = Some r"
  by (auto simp: query_filter_first_def find_Some_iff split: if_splits)

lemma present_found:
  assumes "task_id \<in> rowid ` set db"
  shows "\<exists>r. query_filter_first task_id db = Inr (Some r)"
proof -
  from assms have "in_int64 task_id" using in_int64_rowid by auto
  moreover from assms have "find (\<lambda>t. rowid t = task_id) db \<noteq> None"
    by (auto simp: find_None_iff)
  ultimately show ?thesis by (auto simp: query_filter_first_def)
qed

section \<open>Facts about the handlers\<close>

lemma create_task_eq:
  assumes "next_rowid db = Some pk"
  shows "create_task task db =
     (let new = \<lparr>Task.id' = pk, Task.title = Some (TaskBase.title task),
                 Task.description = TaskBase.description task,
                 Task.done' = Some (TaskBase.done' task)\<rparr>
      in (Inr new, db @ [new]))"
  using assms next_rowid_fresh [OF assms] in_int64_rowid [of "\<lparr>Task.id' = pk, Task.title = None,
      Task.description = None, Task.done' = None\<rparr>"]
  by (simp add: create_task_def add_commit_def refresh_def query_filter_first_def
      find_append_fresh Let_def)

lemma create_task_full:
  "next_rowid db = None \<Longrightarrow> create_task task db = (Inl OperationalError, db)"
  by (simp add: create_task_def add_commit_def)

lemma POST_tasks_eq:
  assumes "next_rowid db = Some pk"
  shows "POST_tasks task db =
     (\<lparr>status_code = 201,
       content = JSON_task \<lparr>TaskBase.title = TaskBase.title task,
                   TaskBase.description = TaskBase.description task,
                   TaskBase.done' = TaskBase.done' task, TaskInDB.id' = sint pk\<rparr>\<rparr>,
      db @ [\<lparr>Task.id' = pk, Task.title = Some (TaskBase.title task),
             Task.description = TaskBase.description task,
             Task.done' = Some (TaskBase.done' task)\<rparr>])"
  by (simp add: POST_tasks_def create_task_eq [OF assms] route_def TaskInDB_from_attributes_def
      Let_def)

lemma POST_tasks_full:
  "next_rowid db = None \<Longrightarrow>
   POST_tasks task db = (\<lparr>status_code = 500, content = Internal_Server_Error\<rparr>, db)"
  by (simp add: POST_tasks_def create_task_full route_def)

lemma read_task_missing:
  "in_int64 task_id \<Longrightarrow> task_id \<notin> rowid ` set db \<Longrightarrow>
   read_task task_id db = Inl (HTTPException 404 not_found_detail)"
  using query_filter_first_None [of task_id db] by (simp add: read_task_def)

lemma update_task_missing:
  "in_int64 task_id \<Longrightarrow> task_id \<notin> rowid ` set db \<Longrightarrow>
   update_task task_id task db = (Inl (HTTPException 404 not_found_detail), db)"
  using query_filter_first_None [of task_id db] by (simp add: update_task_def)

lemma delete_task_missing:
  "in_int64 task_id \<Longrightarrow> task_id \<notin> rowid ` set db \<Longrightarrow>
   delete_task task_id db = (Inl (HTTPException 404 not_found_detail), db)"
  using query_filter_first_None [of task_id db] by (simp add: delete_task_def)

lemma handlers_overflow:
  assumes "\<not> in_int64 task_id"
  shows "read_task task_id db = Inl OverflowError"
    and "update_task task_id task db = (Inl OverflowError, db)"
    and "delete_task task_id db = (Inl OverflowError, db)"
  using assms
  by (simp_all add: read_task_def update_task_def delete_task_def query_filter_first_overflow)

lemma delete_task_found:
  "query_filter_first task_id db = Inr (Some r) \<Longrightarrow>
   delete_task task_id db = (Inr (), filter (\<lambda>x. rowid x \<noteq> task_id) db)"
  using query_filter_first_Some_id [of task_id db r]
  by (simp add: delete_task_def delete_commit_def id_eq_iff_rowid)

lemma fold_setattr_overwritten:
  "fold (\<lambda>item obj. setattr obj item) (dict_exclude_unset task) r = overwritten task r"
  by (cases "TaskUpdate.title task"; cases "TaskUpdate.description task";
      cases "TaskUpdate.done' task") (simp_all add: dict_exclude_unset_def overwritten_def)

lemma overwritten_sel:
  "Task.id' (overwritten task r) = Task.id' r"
  "Task.title (overwritten task r) = overwrite (TaskUpdate.title task) (Task.title r)"
  "Task.description (overwritten task r)
     = overwrite (TaskUpdate.description task) (Task.description r)"
  "Task.done' (overwritten task r) = overwrite (TaskUpdate.done' task) (Task.done' r)"
  by (simp_all add: overwritten_def)

lemma find_map_replace:
  "find (\<lambda>t. rowid t = k) db = Some r \<Longrightarrow> rowid obj = k \<Longrightarrow>
   find (\<lambda>t. rowid t = k) (map (\<lambda>x. if rowid x = k then obj else x) db) = Some obj"
  by (induction db) (auto split: if_splits)

lemma map_id_replace:
  "rowid obj = k \<Longrightarrow>
   map rowid (map (\<lambda>x. if rowid x = k then obj else x) db) = map rowid db"
  by (induction db) auto


lemma update_task_found:
  assumes "query_filter_first task_id db = Inr (Some r)"
  shows "update_task task_id task db =
     (if overwrite (TaskUpdate.title task) (Task.title r) = None then (Inl IntegrityError, db)
      else (Inr (overwritten task r),
            map (\<lambda>x. if rowid x = task_id then overwritten task r else x) db))"
proof -
  have id: "rowid r = task_id" and f: "find (\<lambda>t. rowid t = task_id) db = Some r"
    using assms by (simp_all add: query_filter_first_Some_id)
  have oid: "rowid (overwritten task r) = task_id"
    using id by (simp add: overwritten_sel)
  have rng: "in_int64 task_id"
    using id in_int64_rowid [of r] by simp
  have m: "map (\<lambda>x. if Task.id' x = Task.id' r then overwritten task r else x) db
      = map (\<lambda>x. if rowid x = task_id then overwritten task r else x) db"
    using id by (simp add: id_eq_iff_rowid)
  show ?thesis
    unfolding update_task_def Let_def fold_setattr_overwritten
    using assms id rng find_map_replace [OF f oid]
    by (simp add: commit_update_def refresh_def query_filter_first_def overwritten_sel m)
qed

lemma PUT_task_ids: "map rowid (snd (PUT_task task_id task db)) = map rowid db"
proof (cases "query_filter_first task_id db")
  case (Inl e)
  then show ?thesis by (simp add: PUT_task_def update_task_def)
next
  case (Inr found)
  show ?thesis
  proof (cases found)
    case None
    with Inr show ?thesis by (simp add: PUT_task_def update_task_def)
  next
    case (Some r)
    with Inr have q: "query_filter_first task_id db = Inr (Some r)" by simp
    have "rowid (overwritten task r) = task_id"
      using q by (simp add: overwritten_sel query_filter_first_Some_id)
    then show ?thesis
      by (simp add: PUT_task_def update_task_found [OF q] map_id_replace)
  qed
qed

lemma filter_absent: "k \<notin> rowid ` set db \<Longrightarrow> filter (\<lambda>r. rowid r \<noteq> k) db = db"
  by (induction db) auto

lemma DELETE_task_rows:
  "snd (DELETE_task task_id db) = filter (\<lambda>r. rowid r \<noteq> task_id) db"
proof (cases "query_filter_first task_id db")
  case (Inl e)
  then have "\<not> in_int64 task_id"
    by (auto simp: query_filter_first_def split: if_splits)
  then have "task_id \<notin> rowid ` set db"
    using in_int64_rowid by auto
  with Inl show ?thesis by (simp add: DELETE_task_def delete_task_def filter_absent)
next
  case (Inr found)
  show ?thesis
  proof (cases found)
    case None
    with Inr have "task_id \<notin> rowid ` set db"
      by (auto simp: query_filter_first_def find_None_iff split: if_splits)
    with Inr None show ?thesis by (simp add: DELETE_task_def delete_task_def filter_absent)
  next
    case (Some r)
    with Inr show ?thesis by (simp add: DELETE_task_def delete_task_found)
  qed
qed

lemma POST_tasks_rows: "take (length db) (snd (POST_tasks task db)) = db"
  by (cases "next_rowid db") (simp_all add: POST_tasks_full POST_tasks_eq)

lemma app_distinct:
  assumes "distinct (map rowid db)"
  shows "distinct (map rowid (snd (app req db)))"
proof (cases req)
  case (POST task)
  show ?thesis
  proof (cases "next_rowid db")
    case None
    with POST assms show ?thesis by (simp add: POST_tasks_full)
  next
    case (Some pk)
    with POST assms show ?thesis
      using next_rowid_fresh [OF Some] by (simp add: POST_tasks_eq [OF Some])
  qed
next
  case (GET_list skip limit)
  with assms show ?thesis by (simp add: GET_tasks_def)
next
  case (GET task_id)
  with assms show ?thesis by (simp add: GET_task_def)
next
  case (PUT task_id task)
  with assms show ?thesis by (simp add: PUT_task_ids)
next
  case (DELETE task_id)
  with assms show ?thesis by (simp add: DELETE_task_rows distinct_map_filter)
qed

lemma fold_app_distinct:
  "distinct (map rowid db) \<Longrightarrow>
   distinct (map rowid (fold (\<lambda>req db. snd (app req db)) reqs db))"
  by (induction reqs arbitrary: db) (simp_all add: app_distinct)

text \<open>Three runs of the application, evaluated.\<close>

lemma next_rowid_Nil: "next_rowid [] = Some 1"
  by (simp add: next_rowid_def)

lemma run_buy_milk: "run [POST buy_milk]
   = [\<lparr>Task.id' = 1, Task.title = Some ''Buy milk'', Task.description = None,
        Task.done' = Some False\<rparr>]"
  by (simp add: run_def POST_tasks_eq [OF next_rowid_Nil] buy_milk_def)

lemma PUT_done_null:
  "PUT_task 1 done_null
     [\<lparr>Task.id' = 1, Task.title = Some ''Buy milk'', Task.description = None,
       Task.done' = Some False\<rparr>]
   = (\<lparr>status_code = 500, content = Internal_Server_Error\<rparr>,
      [\<lparr>Task.id' = 1, Task.title = Some ''Buy milk'', Task.description = None,
        Task.done' = None\<rparr>])"
  by (simp add: PUT_task_def update_task_def query_filter_first_def in_int64_def
      dict_exclude_unset_def done_null_def commit_update_def refresh_def route_def
      TaskInDB_from_attributes_def Let_def)

lemma run_null_done: "run [POST buy_milk, PUT 1 done_null]
   = [\<lparr>Task.id' = 1, Task.title = Some ''Buy milk'', Task.description = None,
        Task.done' = None\<rparr>]"
  using run_buy_milk by (simp add: run_def PUT_done_null)

lemma next_rowid_one:
  "next_rowid [\<lparr>Task.id' = 1, Task.title = t, Task.description = d, Task.done' = b\<rparr>] = Some 2"
  by (simp add: next_rowid_def)

lemma run_two: "run [POST buy_milk, PUT 1 done_null, POST walk_dog]
   = [\<lparr>Task.id' = 1, Task.title = Some ''Buy milk'', Task.description = None,
        Task.done' = None\<rparr>,
      \<lparr>Task.id' = 2, Task.title = Some ''Walk dog'', Task.description = Some ''x'',
        Task.done' = Some False\<rparr>]"
  using run_null_done by (simp add: run_def POST_tasks_eq [OF next_rowid_one] walk_dog_def)


text \<open>
  What listing and the empty update do on rows whose \<open>title\<close> and \<open>done\<close> are defined.
\<close>

lemma read_tasks_page:
  "0 \<le> skip \<Longrightarrow> 0 \<le> limit \<Longrightarrow> in_int64 skip \<Longrightarrow> in_int64 limit \<Longrightarrow>
   read_tasks skip limit db = Inr (take (nat limit) (drop (nat skip) db))"
  by (simp add: read_tasks_def query_offset_limit_all_def)

lemma GET_tasks_servable:
  "read_tasks skip limit db = Inr rows \<Longrightarrow> list_from_attributes rows = Some ts \<Longrightarrow>
   GET_tasks skip limit db = (\<lparr>status_code = 200, content = JSON_tasks ts\<rparr>, db)"
  by (simp add: GET_tasks_def route_def)

lemma GET_tasks_two_records:
  assumes "TaskInDB_from_attributes a = Some a'" and "TaskInDB_from_attributes b = Some b'"
  shows "GET_tasks 0 1 [a, b] = (\<lparr>status_code = 200, content = JSON_tasks [a']\<rparr>, [a, b])"
    and "GET_tasks 1 1 [a, b] = (\<lparr>status_code = 200, content = JSON_tasks [b']\<rparr>, [a, b])"
  using assms
  by (simp_all add: GET_tasks_def read_tasks_def query_offset_limit_all_def in_int64_def
      route_def)

lemma replace_absent:
  "k \<notin> rowid ` set db \<Longrightarrow> map (\<lambda>x. if rowid x = k then r else x) db = db"
  by (induction db) auto

lemma replace_same:
  "distinct (map rowid db) \<Longrightarrow> find (\<lambda>t. rowid t = k) db = Some r \<Longrightarrow>
   map (\<lambda>x. if rowid x = k then r else x) db = db"
  by (induction db) (auto simp: replace_absent split: if_splits)

lemma overwrite_no_fields:
  "overwrite (TaskUpdate.title no_fields) v = v"
  by (simp add: no_fields_def)

lemma overwritten_no_fields: "overwritten no_fields r = r"
  by (simp add: overwritten_def no_fields_def)

lemma PUT_task_no_fields:
  assumes "query_filter_first task_id db = Inr (Some r)"
    and "TaskInDB_from_attributes r = Some t"
    and "distinct (map rowid db)"
  shows "PUT_task task_id no_fields db = (\<lparr>status_code = 200, content = JSON_task t\<rparr>, db)"
proof -
  have f: "find (\<lambda>t. rowid t = task_id) db = Some r"
    using assms(1) by (simp add: query_filter_first_Some_id)
  have "Task.title r \<noteq> None"
    using assms(2) by (auto simp: TaskInDB_from_attributes_def split: option.splits)
  then show ?thesis
    using assms(2) replace_same [OF assms(3) f]
    by (simp add: PUT_task_def update_task_found [OF assms(1)] overwritten_no_fields
        overwrite_no_fields route_def cong: if_cong)
qed

section \<open>The claims\<close>

text \<open>
  C1 (as amended). For every task id in the table whose stored row has a title and a defined
  \<open>done\<close>, and every partial update payload that supplies \<open>null\<close> neither for \<open>title\<close> nor
  for \<open>done\<close>, \<open>PUT /tasks/{id}\<close> overwrites exactly the supplied fields of that row
  (a supplied \<open>done: false\<close> overwrites as any other value does), leaves every unsupplied
  field and every other row as it was, and answers 200 with the full updated record.
  A payload that supplies \<open>title: null\<close> is refused by the \<open>NOT NULL\<close> constraint of the
  column: the answer is 500 and the table is left as it was.
\<close>

theorem update_overwrites_supplied_fields:
  assumes found: "query_filter_first task_id db = Inr (Some r)"
    and stored: "TaskInDB_from_attributes r \<noteq> None"
  shows "(TaskUpdate.title task \<noteq> Supplied None \<and> TaskUpdate.done' task \<noteq> Supplied None
      \<longrightarrow> (\<exists>t. TaskInDB_from_attributes (overwritten task r) = Some t
           \<and> PUT_task task_id task db
              = (\<lparr>status_code = 200, content = JSON_task t\<rparr>,
                 map (\<lambda>x. if rowid x = task_id then overwritten task r else x) db)))
    \<and> (TaskUpdate.title task = Supplied None
      \<longrightarrow> PUT_task task_id task db
            = (\<lparr>status_code = 500, content = Internal_Server_Error\<rparr>, db))"
proof (intro conjI impI)
  assume "TaskUpdate.title task = Supplied None"
  then show "PUT_task task_id task db
      = (\<lparr>status_code = 500, content = Internal_Server_Error\<rparr>, db)"
    by (simp add: PUT_task_def update_task_found [OF found] route_def)
next
  assume sup: "TaskUpdate.title task \<noteq> Supplied None \<and> TaskUpdate.done' task \<noteq> Supplied None"
  from stored obtain a b where ab: "Task.title r = Some a" "Task.done' r = Some b"
    by (auto simp: TaskInDB_from_attributes_def split: option.splits)
  from sup ab obtain a' where a': "overwrite (TaskUpdate.title task) (Task.title r) = Some a'"
    by (cases "TaskUpdate.title task") auto
  from sup ab obtain b' where b': "overwrite (TaskUpdate.done' task) (Task.done' r) = Some b'"
    by (cases "TaskUpdate.done' task") auto
  have v: "TaskInDB_from_attributes (overwritten task r)
      = Some \<lparr>TaskBase.title = a',
          TaskBase.description = overwrite (TaskUpdate.description task) (Task.description r),
          TaskBase.done' = b', TaskInDB.id' = rowid r\<rparr>"
    by (simp add: TaskInDB_from_attributes_def overwritten_sel a' b')
  show "\<exists>t. TaskInDB_from_attributes (overwritten task r) = Some t
     \<and> PUT_task task_id task db
        = (\<lparr>status_code = 200, content = JSON_task t\<rparr>,
           map (\<lambda>x. if rowid x = task_id then overwritten task r else x) db)"
    by (simp add: PUT_task_def update_task_found [OF found] a' v route_def)
qed

theorem update_overwrites_supplied_fields_witness:
  "query_filter_first 2 [row1, row2] = Inr (Some row2)
   \<and> TaskInDB_from_attributes row2 \<noteq> None
   \<and> PUT_task 2 (no_fields\<lparr>TaskUpdate.done' := Supplied (Some False)\<rparr>) [row1, row2]
      = (\<lparr>status_code = 200,
          content = JSON_task \<lparr>TaskBase.title = ''Walk dog'', TaskBase.description = None,
                      TaskBase.done' = False, TaskInDB.id' = 2\<rparr>\<rparr>,
         [row1, row2\<lparr>Task.done' := Some False\<rparr>])
   \<and> PUT_task 2 (no_fields\<lparr>TaskUpdate.title := Supplied None\<rparr>) [row1, row2]
      = (\<lparr>status_code = 500, content = Internal_Server_Error\<rparr>, [row1, row2])"
proof -
  have f: "query_filter_first 2 [row1, row2] = Inr (Some row2)"
    by (simp add: query_filter_first_def in_int64_def row1_def row2_def)
  have s: "TaskInDB_from_attributes row2 \<noteq> None"
    by (simp add: TaskInDB_from_attributes_def row2_def)
  show ?thesis
    using update_overwrites_supplied_fields
        [OF f s, of "no_fields\<lparr>TaskUpdate.done' := Supplied (Some False)\<rparr>"]
      update_overwrites_supplied_fields
        [OF f s, of "no_fields\<lparr>TaskUpdate.title := Supplied None\<rparr>"] f s
    by (auto simp: overwritten_def TaskInDB_from_attributes_def row1_def row2_def no_fields_def)
qed

text \<open>
  C1 as stated, for every partial update payload, fails on a payload that supplies
  \<open>title: null\<close>: the \<open>NOT NULL\<close> constraint of the column refuses the row, the answer
  is 500 and the table keeps the old title, which is not the row the claim describes.
\<close>

theorem update_null_title_counterexample:
  "PUT_task 1 \<lparr>TaskUpdate.title = Supplied None, TaskUpdate.description = Unset,
               TaskUpdate.done' = Unset\<rparr> [row1]
     = (\<lparr>status_code = 500, content = Internal_Server_Error\<rparr>, [row1])
   \<and> [row1] \<noteq> [overwritten \<lparr>TaskUpdate.title = Supplied None, TaskUpdate.description = Unset,
                                TaskUpdate.done' = Unset\<rparr> row1]"
  by (simp add: PUT_task_def update_task_def query_filter_first_def in_int64_def row1_def
      dict_exclude_unset_def commit_update_def route_def overwritten_def Let_def)






text \<open>
  C4. The claim is that every record's \<open>done\<close> stays a defined boolean, also under an
  update that supplies \<open>done: null\<close>. The code does not keep it: after one create, the
  update \<open>{done: null}\<close> of task 1 commits a row whose \<open>done\<close> is \<open>None\<close>, and then
  answers 500 because the response model refuses that row.
\<close>

theorem update_null_done_is_stored:
  "app (PUT 1 done_null) (run [POST buy_milk])
     = (\<lparr>status_code = 500, content = Internal_Server_Error\<rparr>,
        [\<lparr>Task.id' = 1, Task.title = Some ''Buy milk'', Task.description = None,
          Task.done' = None\<rparr>])"
  by (simp add: run_buy_milk PUT_done_null)

text \<open>
  C5. For every id that a row of the table has, \<open>DELETE /tasks/{id}\<close> answers 204 with an
  empty body, and \<open>GET /tasks/{id}\<close> on the table it leaves answers 404.
\<close>

theorem delete_then_get_not_found:
  assumes "task_id \<in> rowid ` set db"
  shows "fst (DELETE_task task_id db) = \<lparr>status_code = 204, content = Empty\<rparr>
    \<and> fst (GET_task task_id (snd (DELETE_task task_id db)))
        = \<lparr>status_code = 404, content = JSON_detail not_found_detail\<rparr>"
proof -
  obtain r where r: "query_filter_first task_id db = Inr (Some r)"
    using present_found [OF assms] by blast
  have rng: "in_int64 task_id"
    using assms in_int64_rowid by auto
  have d: "DELETE_task task_id db
      = (\<lparr>status_code = 204, content = Empty\<rparr>, filter (\<lambda>x. rowid x \<noteq> task_id) db)"
    by (simp add: DELETE_task_def delete_task_found [OF r] route_def)
  have "task_id \<notin> rowid ` set (filter (\<lambda>x. rowid x \<noteq> task_id) db)"
    by auto
  then show ?thesis
    using rng by (simp add: d GET_task_def read_task_missing route_def)
qed

theorem delete_then_get_not_found_witness:
  "2 \<in> rowid ` set [row1, row2]
   \<and> fst (DELETE_task 2 [row1, row2]) = \<lparr>status_code = 204, content = Empty\<rparr>
   \<and> fst (GET_task 2 (snd (DELETE_task 2 [row1, row2])))
       = \<lparr>status_code = 404, content = JSON_detail not_found_detail\<rparr>"
proof -
  have h: "2 \<in> rowid ` set [row1, row2]"
    by (simp add: row1_def row2_def)
  show ?thesis
    using h delete_then_get_not_found [OF h] by simp
qed


text \<open>
  C6. For every create request, every table and every record that \<open>POST /tasks/\<close> returns,
  \<open>GET /tasks/{id}\<close> with the id of that record, on the table that the create left,
  answers 200 with the very record the create returned (id, title, description and done),
  and writes nothing. On every table whose rowids are not used up the create does return
  a record: the fields of the request with the next rowid.
\<close>

theorem get_after_create:
  "(fst (POST_tasks task db) = \<lparr>status_code = 201, content = JSON_task t\<rparr>
      \<longrightarrow> GET_task (TaskInDB.id' t) (snd (POST_tasks task db))
            = (\<lparr>status_code = 200, content = JSON_task t\<rparr>, snd (POST_tasks task db)))
   \<and> (next_rowid db = Some pk
      \<longrightarrow> fst (POST_tasks task db)
            = \<lparr>status_code = 201,
                content = JSON_task \<lparr>TaskBase.title = TaskBase.title task,
                            TaskBase.description = TaskBase.description task,
                            TaskBase.done' = TaskBase.done' task, TaskInDB.id' = sint pk\<rparr>\<rparr>)"
proof (intro conjI impI)
  assume "next_rowid db = Some pk"
  then show "fst (POST_tasks task db)
      = \<lparr>status_code = 201,
          content = JSON_task \<lparr>TaskBase.title = TaskBase.title task,
                      TaskBase.description = TaskBase.description task,
                      TaskBase.done' = TaskBase.done' task, TaskInDB.id' = sint pk\<rparr>\<rparr>"
    by (simp add: POST_tasks_eq)
next
  assume created: "fst (POST_tasks task db) = \<lparr>status_code = 201, content = JSON_task t\<rparr>"
  show "GET_task (TaskInDB.id' t) (snd (POST_tasks task db))
      = (\<lparr>status_code = 200, content = JSON_task t\<rparr>, snd (POST_tasks task db))"
  proof (cases "next_rowid db")
    case None
    with created show ?thesis by (simp add: POST_tasks_full)
  next
    case (Some k)
    let ?new = "\<lparr>Task.id' = k, Task.title = Some (TaskBase.title task),
                 Task.description = TaskBase.description task,
                 Task.done' = Some (TaskBase.done' task)\<rparr>"
    from created have t: "t = \<lparr>TaskBase.title = TaskBase.title task,
        TaskBase.description = TaskBase.description task,
        TaskBase.done' = TaskBase.done' task, TaskInDB.id' = sint k\<rparr>"
      by (simp add: POST_tasks_eq [OF Some])
    have rng: "in_int64 (sint k)"
      using in_int64_rowid [of ?new] by simp
    have "find (\<lambda>r. rowid r = sint k) (db @ [?new]) = Some ?new"
      using next_rowid_fresh [OF Some] by (intro find_append_fresh) simp_all
    then show ?thesis
      using rng
      by (simp add: t POST_tasks_eq [OF Some] GET_task_def read_task_def query_filter_first_def
          route_def TaskInDB_from_attributes_def)
  qed
qed

theorem get_after_create_witness:
  "next_rowid [row1, row2] = Some 3
   \<and> fst (POST_tasks walk_dog [row1, row2])
      = \<lparr>status_code = 201,
          content = JSON_task \<lparr>TaskBase.title = ''Walk dog'', TaskBase.description = Some ''x'',
                      TaskBase.done' = False, TaskInDB.id' = 3\<rparr>\<rparr>
   \<and> GET_task 3 (snd (POST_tasks walk_dog [row1, row2]))
      = (\<lparr>status_code = 200,
          content = JSON_task \<lparr>TaskBase.title = ''Walk dog'', TaskBase.description = Some ''x'',
                      TaskBase.done' = False, TaskInDB.id' = 3\<rparr>\<rparr>,
         snd (POST_tasks walk_dog [row1, row2]))"
proof -
  have h: "next_rowid [row1, row2] = Some 3"
    by (simp add: next_rowid_def row1_def row2_def)
  have c: "fst (POST_tasks walk_dog [row1, row2])
      = \<lparr>status_code = 201,
          content = JSON_task \<lparr>TaskBase.title = ''Walk dog'', TaskBase.description = Some ''x'',
                      TaskBase.done' = False, TaskInDB.id' = 3\<rparr>\<rparr>"
    using h get_after_create [of walk_dog "[row1, row2]" _ 3] by (simp add: walk_dog_def)
  show ?thesis
    using h c get_after_create [of walk_dog "[row1, row2]"
        "\<lparr>TaskBase.title = ''Walk dog'', TaskBase.description = Some ''x'',
          TaskBase.done' = False, TaskInDB.id' = 3\<rparr>" 3]
    by simp
qed

text \<open>
  C7. The claim is that listing with \<open>skip = 0\<close> and \<open>limit = 1\<close> on a table of two records
  returns exactly one record. On the table of two records left by a create, the update
  \<open>{done: null}\<close> of task 1 and a second create, \<open>GET /tasks/?skip=0&limit=1\<close> answers
  500 and returns no record: the row it selects has \<open>done = None\<close>, which the response
  model refuses.
\<close>

theorem list_fails_on_null_done_row:
  "length (run [POST buy_milk, PUT 1 done_null, POST walk_dog]) = 2
   \<and> GET_tasks 0 1 (run [POST buy_milk, PUT 1 done_null, POST walk_dog])
     = (\<lparr>status_code = 500, content = Internal_Server_Error\<rparr>,
        run [POST buy_milk, PUT 1 done_null, POST walk_dog])"
  by (simp add: run_two GET_tasks_def read_tasks_def query_offset_limit_all_def in_int64_def
      route_def TaskInDB_from_attributes_def)

text \<open>
  C8. In every table that a run of the application reaches from the empty table, no two
  rows share an id. No operation changes the id of a row: an update leaves the list of
  ids as it was, a create only appends a row, a delete only removes the rows of its id,
  and the two reads write nothing.
\<close>

theorem ids_unique_and_immutable:
  "distinct (map rowid (run reqs))
   \<and> map rowid (snd (PUT_task task_id task db)) = map rowid db
   \<and> take (length db) (snd (POST_tasks new db)) = db
   \<and> snd (DELETE_task task_id db) = filter (\<lambda>r. rowid r \<noteq> task_id) db
   \<and> snd (GET_task task_id db) = db
   \<and> snd (GET_tasks skip limit db) = db"
  by (simp add: run_def fold_app_distinct PUT_task_ids POST_tasks_rows DELETE_task_rows
      GET_task_def GET_tasks_def)

text \<open>
  C9. The claim is that an update with no field supplied answers 200 with the unchanged
  record for every id in the table. On the table left by a create and the update
  \<open>{done: null}\<close> of task 1, the empty update of task 1 answers 500: the stored row has
  \<open>done = None\<close>, which the response model refuses. The table is left as it was.
\<close>

theorem empty_update_fails_on_null_done_row:
  "PUT_task 1 no_fields (run [POST buy_milk, PUT 1 done_null])
     = (\<lparr>status_code = 500, content = Internal_Server_Error\<rparr>,
        run [POST buy_milk, PUT 1 done_null])"
  by (simp add: run_null_done PUT_task_def update_task_def query_filter_first_def in_int64_def
      dict_exclude_unset_def no_fields_def commit_update_def refresh_def route_def
      TaskInDB_from_attributes_def Let_def)

text \<open>
  C10. For every id that no row of the table has, the failing \<open>GET\<close>, \<open>PUT\<close> (with any
  payload) and \<open>DELETE\<close> on that id leave the whole table as it was.
\<close>

theorem not_found_leaves_store:
  assumes "task_id \<notin> rowid ` set db"
  shows "snd (GET_task task_id db) = db \<and> snd (PUT_task task_id task db) = db
    \<and> snd (DELETE_task task_id db) = db"
  using assms
  by (cases "in_int64 task_id")
    (simp_all add: GET_task_def PUT_task_def DELETE_task_def update_task_missing
      delete_task_missing handlers_overflow)

theorem not_found_leaves_store_witness:
  "7 \<notin> rowid ` set [row1, row2]
   \<and> snd (GET_task 7 [row1, row2]) = [row1, row2]
   \<and> snd (PUT_task 7 done_null [row1, row2]) = [row1, row2]
   \<and> snd (DELETE_task 7 [row1, row2]) = [row1, row2]"
proof -
  have h: "7 \<notin> rowid ` set [row1, row2]"
    by (simp add: row1_def row2_def)
  show ?thesis
    using h not_found_leaves_store [OF h, of done_null] by simp
qed

end
